theory Spec2Isabelle
  imports
    Main
    "HOL-Library.AList"
    "HOL-Library.Sublist"
    "HOL-Library.Multiset"
    "HOL-Library.Char_ord"
    "HOL-Library.List_Lexorder"
begin

section \<open>Python values used by the error payloads\<close>

text \<open>
  The payloads built in \<^verbatim>\<open>django_odata/exceptions.py\<close> are nested Python dictionaries
  whose leaves are strings and lists. A dictionary keeps its insertion order, so it is an
  association list; a dictionary literal with distinct literal keys is the list of its
  items in the order written.
\<close>

datatype pyval =
    PStr string
  | PList "pyval list"
  | PDict "(string \<times> pyval) list"

type_synonym pydict = "(string \<times> pyval) list"

text \<open>\<^verbatim>\<open>d[k]\<close> / \<^verbatim>\<open>d.get(k)\<close>: the value stored under a key, if any.\<close>

definition dict_get :: "pydict \<Rightarrow> string \<Rightarrow> pyval option" where
  "dict_get d k = map_of d k"

text \<open>\<^verbatim>\<open>list(d.keys())\<close>: the keys in insertion order.\<close>

definition dict_keys :: "pydict \<Rightarrow> string list" where
  "dict_keys d = map fst d"

text \<open>
  \<^verbatim>\<open>d.update(other)\<close>: the items of \<^verbatim>\<open>other\<close> are stored into \<^verbatim>\<open>d\<close> one after the other,
  in the order of \<^verbatim>\<open>other\<close>. Storing under a key that is present replaces the value and
  keeps the key's position; storing under a new key appends it
  (this is \<^const>\<open>AList.update\<close>).
\<close>

definition dict_update :: "pydict \<Rightarrow> pydict \<Rightarrow> pydict" where
  "dict_update d other = fold (\<lambda>kv. AList.update (fst kv) (snd kv)) other d"

text \<open>\<^verbatim>\<open>sep.join(xs)\<close> on a list of strings.\<close>

fun join :: "string \<Rightarrow> string list \<Rightarrow> string" where
  "join sep [] = []"
| "join sep [x] = x"
| "join sep (x # y # ys) = x @ sep @ join sep (y # ys)"

text \<open>
  \<^verbatim>\<open>'{x}'\<close> inside an f-string: the string between two single quotes (character 0x27).
\<close>

definition quoted :: "string \<Rightarrow> string" where
  "quoted x = [CHR 0x27] @ x @ [CHR 0x27]"

section \<open>The exception classes\<close>

text \<open>
  The class of the raised object (\<^verbatim>\<open>type(self)\<close>): \<^verbatim>\<open>ODataFilterError\<close> and its five
  subclasses.
\<close>

datatype error_class =
    ODataFilterError
  | ODataFieldNotFoundError
  | ODataInvalidFilterSyntaxError
  | ODataInvalidOperatorError
  | ODataInvalidValueError
  | ODataExpandError

text \<open>
  The attributes of an exception object after \<^verbatim>\<open>__init__\<close>. The field \<open>detail\<close> is the
  \<^verbatim>\<open>detail=\<close> dictionary that \<^verbatim>\<open>ODataFilterError.__init__\<close> hands to the constructor of the
  REST framework's \<^verbatim>\<open>APIException\<close> base class, and \<open>api_code\<close> the \<^verbatim>\<open>code=\<close> argument of
  that call. The type parameter \<open>'e\<close> stands for the wrapped Python exception.
\<close>

record 'e odata_error =
  err_class :: error_class
  message :: string
  error_code :: string
  target :: string
  details :: pydict
  original_exception :: "'e option"
  detail :: pyval
  api_code :: string

text \<open>Class attributes of \<^verbatim>\<open>ODataFilterError\<close>; no subclass overrides them.\<close>

definition status_code :: nat where
  "status_code = 400"

definition default_detail :: string where
  "default_detail = ''Invalid filter expression''"

definition default_code :: string where
  "default_code = ''BadRequest''"

text \<open>
  \<^verbatim>\<open>ODataFilterError.__init__(self, message, code="BadRequest", target="$filter",
  details=None, original_exception=None)\<close>.
  An omitted \<^verbatim>\<open>code\<close> or \<^verbatim>\<open>target\<close> argument is \<open>None\<close> here and takes the default of the
  signature; \<^verbatim>\<open>details\<close> is \<open>None\<close> when omitted (or passed as Python's \<^verbatim>\<open>None\<close>), and
  \<^verbatim>\<open>details or {}\<close> turns both \<^verbatim>\<open>None\<close> and the empty dictionary into the empty dictionary.
  The first argument is the class of the object under construction.
\<close>

definition ODataFilterError_init ::
  "error_class \<Rightarrow> string \<Rightarrow> string option \<Rightarrow> string option \<Rightarrow> pydict option \<Rightarrow> 'e option
    \<Rightarrow> 'e odata_error" where
  "ODataFilterError_init cls msg code_arg target_arg details_arg orig =
    (let code = (case code_arg of None \<Rightarrow> ''BadRequest'' | Some c \<Rightarrow> c);
         tgt = (case target_arg of None \<Rightarrow> ''$filter'' | Some t \<Rightarrow> t);
         dets = (case details_arg of None \<Rightarrow> [] | Some d \<Rightarrow> (if d = [] then [] else d));
         entry0 = [(''code'', PStr code), (''message'', PStr msg), (''target'', PStr tgt)];
         entry = (if dets \<noteq> [] then dict_update entry0 dets else entry0);
         error_details = [PDict entry]
     in \<lparr> err_class = cls,
          message = msg,
          error_code = code,
          target = tgt,
          details = dets,
          original_exception = orig,
          detail = PDict [(''error'', PDict [(''code'', PStr default_code),
                                             (''message'', PStr msg),
                                             (''details'', PList error_details)])],
          api_code = default_code \<rparr>)"

text \<open>\<^verbatim>\<open>ODataFieldNotFoundError.__init__(self, field_name, model_name, original_exception=None)\<close>\<close>

definition ODataFieldNotFoundError_init :: "string \<Rightarrow> string \<Rightarrow> 'e option \<Rightarrow> 'e odata_error" where
  "ODataFieldNotFoundError_init field_name model_name orig =
    (let msg = ''Field '' @ quoted field_name @ '' does not exist on entity ''
                 @ quoted model_name
     in ODataFilterError_init ODataFieldNotFoundError msg
          (Some ''FieldNotFound'') (Some ''$filter'')
          (Some [(''field'', PStr field_name), (''entity'', PStr model_name)])
          orig)"

text \<open>
  \<^verbatim>\<open>ODataInvalidFilterSyntaxError.__init__(self, filter_expression, details="",
  original_exception=None)\<close>; the second argument is the string \<^verbatim>\<open>details\<close>, empty when omitted.
\<close>

definition ODataInvalidFilterSyntaxError_init ::
  "string \<Rightarrow> string \<Rightarrow> 'e option \<Rightarrow> 'e odata_error" where
  "ODataInvalidFilterSyntaxError_init filter_expression syntax_details orig =
    (let msg0 = ''Invalid filter expression: '' @ filter_expression;
         msg = (if syntax_details \<noteq> [] then msg0 @ '' - '' @ syntax_details else msg0)
     in ODataFilterError_init ODataInvalidFilterSyntaxError msg
          (Some ''InvalidFilterSyntax'') (Some ''$filter'')
          (Some [(''expression'', PStr filter_expression),
                 (''syntax_error'', PStr syntax_details)])
          orig)"

text \<open>The local list \<^verbatim>\<open>valid_operators\<close> of \<^verbatim>\<open>ODataInvalidOperatorError.__init__\<close>.\<close>

definition valid_operators :: "string list" where
  "valid_operators =
    [''eq'', ''ne'', ''gt'', ''ge'', ''lt'', ''le'', ''and'', ''or'', ''not'',
     ''contains'', ''startswith'', ''endswith'']"

text \<open>\<^verbatim>\<open>ODataInvalidOperatorError.__init__(self, operator, filter_expression, original_exception=None)\<close>\<close>

definition ODataInvalidOperatorError_init ::
  "string \<Rightarrow> string \<Rightarrow> 'e option \<Rightarrow> 'e odata_error" where
  "ODataInvalidOperatorError_init operator filter_expression orig =
    (let msg = ''Unknown operator '' @ quoted operator
                 @ ''. Valid operators: '' @ join '', '' valid_operators
     in ODataFilterError_init ODataInvalidOperatorError msg
          (Some ''InvalidOperator'') (Some ''$filter'')
          (Some [(''operator'', PStr operator),
                 (''expression'', PStr filter_expression),
                 (''valid_operators'', PList (map PStr valid_operators))])
          orig)"

text \<open>\<^verbatim>\<open>ODataInvalidValueError.__init__(self, value, expected_type, field, original_exception=None)\<close>\<close>

definition ODataInvalidValueError_init ::
  "string \<Rightarrow> string \<Rightarrow> string \<Rightarrow> 'e option \<Rightarrow> 'e odata_error" where
  "ODataInvalidValueError_init val expected_type field orig =
    (let msg = ''Invalid value '' @ quoted val @ '' for field '' @ quoted field
                 @ ''. Expected type: '' @ expected_type
     in ODataFilterError_init ODataInvalidValueError msg
          (Some ''InvalidValue'') (Some ''$filter'')
          (Some [(''value'', PStr val),
                 (''expected_type'', PStr expected_type),
                 (''field'', PStr field)])
          orig)"

text \<open>
  \<^verbatim>\<open>ODataExpandError.__init__(self, field_name, model_name, valid_fields=None,
  original_exception=None)\<close>. \<^verbatim>\<open>valid_fields\<close> is \<open>None\<close> when omitted; \<^verbatim>\<open>if valid_fields\<close> is
  true exactly for a non-empty list, and \<^verbatim>\<open>valid_fields or []\<close> is the empty list for
  \<^verbatim>\<open>None\<close> and for the empty list.
\<close>

definition ODataExpandError_init ::
  "string \<Rightarrow> string \<Rightarrow> string list option \<Rightarrow> 'e option \<Rightarrow> 'e odata_error" where
  "ODataExpandError_init field_name model_name valid_fields orig =
    (let msg = (case valid_fields of
                  Some (v # vs) \<Rightarrow>
                    ''Invalid field name(s) given in select_related: '' @ quoted field_name
                      @ ''. Choices are: '' @ join '', '' (map quoted (v # vs))
                | _ \<Rightarrow> ''Invalid field name(s) given in select_related: '' @ quoted field_name);
         valid_or_empty = (case valid_fields of Some (v # vs) \<Rightarrow> v # vs | _ \<Rightarrow> [])
     in ODataFilterError_init ODataExpandError msg
          (Some ''InvalidExpandField'') (Some ''$expand'')
          (Some [(''field'', PStr field_name),
                 (''entity'', PStr model_name),
                 (''valid_choices'', PList (map PStr valid_or_empty))])
          orig)"

section \<open>Reading a payload\<close>

text \<open>\<^verbatim>\<open>payload["error"]\<close>, when the payload is a dictionary holding a dictionary there.\<close>

definition payload_error :: "pyval \<Rightarrow> pydict option" where
  "payload_error p =
    (case p of
       PDict outer \<Rightarrow> (case dict_get outer ''error'' of Some (PDict err) \<Rightarrow> Some err | _ \<Rightarrow> None)
     | _ \<Rightarrow> None)"

text \<open>\<^verbatim>\<open>payload["error"]["details"]\<close>, when it is a list.\<close>

definition payload_details :: "pyval \<Rightarrow> pyval list option" where
  "payload_details p =
    (case payload_error p of
       Some err \<Rightarrow> (case dict_get err ''details'' of Some (PList ds) \<Rightarrow> Some ds | _ \<Rightarrow> None)
     | None \<Rightarrow> None)"

text \<open>\<^verbatim>\<open>payload["error"]["details"][0]\<close>, when it is a dictionary.\<close>

definition first_detail :: "pyval \<Rightarrow> pydict option" where
  "first_detail p =
    (case payload_details p of
       Some (PDict entry # rest) \<Rightarrow> Some entry
     | _ \<Rightarrow> None)"

text \<open>\<^verbatim>\<open>payload["error"][k]\<close> and \<^verbatim>\<open>payload["error"]["details"][0][k]\<close>.\<close>

definition error_field :: "pyval \<Rightarrow> string \<Rightarrow> pyval option" where
  "error_field p k = (case payload_error p of Some err \<Rightarrow> dict_get err k | None \<Rightarrow> None)"

definition detail_field :: "pyval \<Rightarrow> string \<Rightarrow> pyval option" where
  "detail_field p k = (case first_detail p of Some entry \<Rightarrow> dict_get entry k | None \<Rightarrow> None)"

text \<open>
  The wire shape \<^verbatim>\<open>{error: {code, message, details: [{code, message, target, ...}]}}\<close>:
  one top-level key \<^verbatim>\<open>error\<close>; under it exactly the keys \<^verbatim>\<open>code\<close>, \<^verbatim>\<open>message\<close> (both
  strings) and \<^verbatim>\<open>details\<close>, a list whose first entry is a dictionary with at least the keys
  \<^verbatim>\<open>code\<close>, \<^verbatim>\<open>message\<close> and \<^verbatim>\<open>target\<close>.
\<close>

definition is_str :: "pyval option \<Rightarrow> bool" where
  "is_str v = (case v of Some (PStr s) \<Rightarrow> True | _ \<Rightarrow> False)"

definition payload_shape_ok :: "pyval \<Rightarrow> bool" where
  "payload_shape_ok p =
    (case p of
       PDict outer \<Rightarrow>
         dict_keys outer = [''error''] \<and>
         (case payload_error p of
            Some err \<Rightarrow>
              dict_keys err = [''code'', ''message'', ''details''] \<and>
              is_str (dict_get err ''code'') \<and>
              is_str (dict_get err ''message'') \<and>
              (case first_detail p of
                 Some entry \<Rightarrow>
                   ''code'' \<in> set (dict_keys entry) \<and>
                   ''message'' \<in> set (dict_keys entry) \<and>
                   ''target'' \<in> set (dict_keys entry)
               | None \<Rightarrow> False)
          | None \<Rightarrow> False)
     | _ \<Rightarrow> False)"

text \<open>The keys of \<^verbatim>\<open>payload["error"]["details"][0]\<close>, in insertion order.\<close>

definition detail_keys :: "pyval \<Rightarrow> string list" where
  "detail_keys p = (case first_detail p of Some entry \<Rightarrow> dict_keys entry | None \<Rightarrow> [])"

section \<open>The request cache\<close>

text \<open>
  The module \<^verbatim>\<open>django_odata/utils.py\<close> (\<^verbatim>\<open>apply_odata_query_params\<close>,
  \<^verbatim>\<open>_generate_request_cache_key\<close>, \<^verbatim>\<open>clear_odata_cache\<close>, \<^verbatim>\<open>_request_cache\<close>) is imported by
  \<^verbatim>\<open>django_odata/__init__.py\<close> and exercised by \<^verbatim>\<open>tests/test_utils_caching.py\<close>, but its
  source is not available. The definitions of this section follow the specification of
  the Request Cache instead.

  A parameter mapping is a Python dictionary from option names to strings: an association
  list in insertion order, with distinct keys. The entity identity is a name. The lexer,
  parser, validator and plan builder are a parameter \<open>build\<close> of the cache, which returns an
  error or a plan; the digest function is a parameter \<open>digest\<close>.
\<close>

type_synonym raw_params = "(string \<times> string) list"

text \<open>
  Modelled from the spec: the canonical (order-independent) serialization of the raw
  parameters used by the missing \<^verbatim>\<open>_generate_request_cache_key\<close>: the items sorted by key.
\<close>

definition canonical_params :: "raw_params \<Rightarrow> raw_params" where
  "canonical_params ps = sort_key fst ps"

text \<open>
  Modelled from the spec: the missing \<^verbatim>\<open>_generate_request_cache_key\<close>, ``a stable digest over
  the entity identity and the canonical (order-independent) serialization of
  \<^verbatim>\<open>raw_params\<close>''.
\<close>

definition generate_request_cache_key ::
  "(string \<times> raw_params \<Rightarrow> 'k) \<Rightarrow> string \<Rightarrow> raw_params \<Rightarrow> 'k" where
  "generate_request_cache_key digest entity ps = digest (entity, canonical_params ps)"

text \<open>
  Modelled from the spec: the state of the missing request cache. Query plans are objects
  with an identity: \<open>plans\<close> is the store of the plan objects built so far, and the identity
  of a plan is its index there. Each scope (a natural number names it) has its own key
  space, mapping cache keys to plan identities.
\<close>

record ('k, 'p) cache_state =
  plans :: "'p list"
  scopes :: "nat \<Rightarrow> ('k \<rightharpoonup> nat)"

text \<open>Modelled from the spec: the missing cache before any request: no plan, no entry.\<close>

definition empty_cache :: "('k, 'p) cache_state" where
  "empty_cache = \<lparr> plans = [], scopes = (\<lambda>s. Map.empty) \<rparr>"

text \<open>
  Modelled from the spec: the missing \<^verbatim>\<open>resolve_or_build(entity_identity, raw_params,
  build_fn)\<close> in the active scope \<open>s\<close>. ``On key hit within the active scope, returns the
  previously stored Query Plan (same shared instance). On miss, invokes \<^verbatim>\<open>build_fn\<close> to
  construct a fresh plan, stores it keyed in the active scope, and returns it.'' A failing
  build returns its error and stores nothing (``no partial Query Plan is ever returned on
  failure'').
\<close>

definition resolve_or_build ::
  "(string \<times> raw_params \<Rightarrow> 'k) \<Rightarrow> nat \<Rightarrow> string \<Rightarrow> raw_params
    \<Rightarrow> (string \<Rightarrow> raw_params \<Rightarrow> 'err + 'p) \<Rightarrow> ('k, 'p) cache_state
    \<Rightarrow> ('err + nat) \<times> ('k, 'p) cache_state" where
  "resolve_or_build digest s entity ps build_fn st =
    (let key = generate_request_cache_key digest entity ps in
     case scopes st s key of
       Some a \<Rightarrow> (Inr a, st)
     | None \<Rightarrow>
         (case build_fn entity ps of
            Inl err \<Rightarrow> (Inl err, st)
          | Inr plan \<Rightarrow>
              (let a = length (plans st) in
               (Inr a, st \<lparr> plans := plans st @ [plan],
                            scopes := (scopes st) (s := (scopes st s) (key \<mapsto> a)) \<rparr>))))"

text \<open>
  Modelled from the spec: the missing entry point \<^verbatim>\<open>apply_odata_query_params\<close> (the spec's
  \<^verbatim>\<open>translate\<close>), which resolves the parameters through the cache of the active scope.
\<close>

definition apply_odata_query_params ::
  "(string \<times> raw_params \<Rightarrow> 'k) \<Rightarrow> (string \<Rightarrow> raw_params \<Rightarrow> 'err + 'p) \<Rightarrow> nat \<Rightarrow> string
    \<Rightarrow> raw_params \<Rightarrow> ('k, 'p) cache_state \<Rightarrow> ('err + nat) \<times> ('k, 'p) cache_state" where
  "apply_odata_query_params digest build s entity ps st =
    resolve_or_build digest s entity ps build st"

text \<open>
  Modelled from the spec: the missing \<^verbatim>\<open>clear_odata_cache\<close> (the spec's \<^verbatim>\<open>clear()\<close>), which
  ``drops all entries in the active scope''.
\<close>

definition clear_odata_cache :: "nat \<Rightarrow> ('k, 'p) cache_state \<Rightarrow> ('k, 'p) cache_state" where
  "clear_odata_cache s st = st \<lparr> scopes := (scopes st) (s := Map.empty) \<rparr>"

text \<open>
  The operations a program performs on the cache, each in some scope, and the state they
  lead to from the empty cache.
\<close>

datatype cache_op = Translate nat string raw_params | Clear nat

fun exec ::
  "(string \<times> raw_params \<Rightarrow> 'k) \<Rightarrow> (string \<Rightarrow> raw_params \<Rightarrow> 'err + 'p)
    \<Rightarrow> ('k, 'p) cache_state \<Rightarrow> cache_op \<Rightarrow> ('k, 'p) cache_state" where
  "exec digest build st (Translate s entity ps) =
     snd (apply_odata_query_params digest build s entity ps st)"
| "exec digest build st (Clear s) = clear_odata_cache s st"

definition run ::
  "(string \<times> raw_params \<Rightarrow> 'k) \<Rightarrow> (string \<Rightarrow> raw_params \<Rightarrow> 'err + 'p)
    \<Rightarrow> cache_op list \<Rightarrow> ('k, 'p) cache_state" where
  "run digest build ops = foldl (exec digest build) empty_cache ops"



text \<open>
  An instance of the two parameters, to run the cache on concrete requests: the digest keeps
  the canonical form as it is, and the plan built for a request is the entity with the
  canonical form of its parameters.
\<close>

definition sample_digest :: "string \<times> raw_params \<Rightarrow> string \<times> raw_params" where
  "sample_digest x = x"

definition sample_build :: "string \<Rightarrow> raw_params \<Rightarrow> unit + string \<times> raw_params" where
  "sample_build entity ps = Inr (entity, canonical_params ps)"

section \<open>Facts about dictionaries and strings\<close>

lemmas init_defs =
  ODataFilterError_init_def ODataFieldNotFoundError_init_def
  ODataInvalidFilterSyntaxError_init_def ODataInvalidOperatorError_init_def
  ODataInvalidValueError_init_def ODataExpandError_init_def

lemmas read_defs =
  payload_error_def payload_details_def first_detail_def error_field_def
  detail_field_def dict_get_def dict_keys_def

lemma dict_update_keys:
  "set (dict_keys (dict_update d other)) = set (dict_keys d) \<union> set (dict_keys other)"
  unfolding dict_update_def dict_keys_def
proof (induction other arbitrary: d)
  case Nil
  show ?case by simp
next
  case (Cons kv other)
  have "set (map fst (AList.update (fst kv) (snd kv) d)) = insert (fst kv) (set (map fst d))"
    by (auto simp: update_keys)
  with Cons.IH [of "AList.update (fst kv) (snd kv) d"] show ?case
    by auto
qed

lemma map_of_dict_update_notin:
  "k \<notin> fst ` set other \<Longrightarrow> map_of (dict_update d other) k = map_of d k"
  unfolding dict_update_def
  by (induction other arbitrary: d) (auto simp: update_conv')

lemma map_of_dict_update_in:
  "distinct (map fst other) \<Longrightarrow> (k, v) \<in> set other
    \<Longrightarrow> map_of (dict_update d other) k = Some v"
  unfolding dict_update_def
proof (induction other arbitrary: d)
  case Nil
  then show ?case by simp
next
  case (Cons kv other)
  show ?case
  proof (cases "(k, v) \<in> set other")
    case True
    with Cons show ?thesis by simp
  next
    case False
    with Cons.prems have kv: "kv = (k, v)" by auto
    with Cons.prems have notin: "k \<notin> fst ` set other" by simp
    have "map_of (dict_update (AList.update k v d) other) k = map_of (AList.update k v d) k"
      using notin by (rule map_of_dict_update_notin)
    then show ?thesis by (simp add: kv dict_update_def update_conv')
  qed
qed

lemma sublist_join: "c \<in> set xs \<Longrightarrow> sublist c (join sep xs)"
proof (induction sep xs rule: join.induct)
  case (1 sep)
  then show ?case by simp
next
  case (2 sep x)
  then show ?case by simp
next
  case (3 sep x y ys)
  show ?case
  proof (cases "c = x")
    case True
    then show ?thesis by simp
  next
    case False
    with 3 have "sublist c (join sep (y # ys))" by simp
    then show ?thesis by (simp add: sublist_append)
  qed
qed

lemma base_shape: "payload_shape_ok (detail (ODataFilterError_init cls msg c t d orig))"
proof -
  let ?e0 = "[(''code'', PStr (case c of None \<Rightarrow> ''BadRequest'' | Some x \<Rightarrow> x)),
              (''message'', PStr msg),
              (''target'', PStr (case t of None \<Rightarrow> ''$filter'' | Some x \<Rightarrow> x))]"
  have "set (dict_keys ?e0) \<subseteq> set (dict_keys (dict_update ?e0 ds))" for ds
    by (simp only: dict_update_keys) blast
  then have "\<And>ds. {''code'', ''message'', ''target''} \<subseteq> set (map fst (dict_update ?e0 ds))"
    by (simp add: dict_keys_def)
  then show ?thesis
    by (auto simp add: payload_shape_ok_def init_defs read_defs Let_def default_code_def
          is_str_def split: option.splits)
qed

lemma base_top_code:
  "error_field (detail (ODataFilterError_init cls msg c t d orig)) ''code''
     = Some (PStr ''BadRequest'')"
  by (simp add: init_defs read_defs Let_def default_code_def)

lemma join_concat:
  "xs \<noteq> [] \<Longrightarrow> join sep xs @ sep = concat (map (\<lambda>x. x @ sep) xs)"
  by (induction sep xs rule: join.induct) simp_all

lemma sublist_join_quoted: "c \<in> set xs \<Longrightarrow> sublist c (join sep (map quoted xs))"
proof -
  assume "c \<in> set xs"
  then have "quoted c \<in> set (map quoted xs)" by simp
  then have "sublist (quoted c) (join sep (map quoted xs))" by (rule sublist_join)
  then obtain ps ss where "join sep (map quoted xs) = ps @ quoted c @ ss"
    unfolding sublist_def by blast
  then have "join sep (map quoted xs) = (ps @ [CHR 0x27]) @ c @ ([CHR 0x27] @ ss)"
    by (simp add: quoted_def)
  then show ?thesis unfolding sublist_def by blast
qed

section \<open>Facts about the request cache\<close>

lemma filter_same_key:
  "distinct (map f xs) \<Longrightarrow> k \<in> set xs \<Longrightarrow> filter (\<lambda>x. f k = f x) xs = [k]"
proof (induction xs)
  case Nil
  then show ?case by simp
next
  case (Cons x xs)
  show ?case
  proof (cases "k = x")
    case True
    from Cons.prems have "f x \<notin> f ` set xs" by simp
    then have "filter (\<lambda>y. f x = f y) xs = []"
      by (auto simp: filter_empty_conv)
    with True show ?thesis by simp
  next
    case False
    with Cons.prems have kin: "k \<in> set xs" by simp
    from Cons.prems have "f x \<notin> f ` set xs" by simp
    with kin have "f k \<noteq> f x" by (metis imageI)
    with Cons.IH kin Cons.prems show ?thesis by simp
  qed
qed

lemma canonical_params_permutation:
  assumes dp: "distinct (map fst ps)" and dq: "distinct (map fst qs)"
    and eq: "set ps = set qs"
  shows "canonical_params ps = canonical_params qs"
proof -
  let ?ys = "sort_key fst qs"
  from dp have "distinct ps" by (simp add: distinct_map)
  moreover from dq have "distinct qs" by (simp add: distinct_map)
  ultimately have ms: "mset ps = mset qs"
    using eq by (simp add: set_eq_iff_mset_eq_distinct)
  have m1: "mset ?ys = mset ps"
    using ms by simp
  have "mset (map fst ?ys) = mset (map fst qs)"
    by simp
  with dq have dy: "distinct (map fst ?ys)"
    by (metis mset_eq_imp_distinct_iff)
  have m2: "filter (\<lambda>x. fst k = fst x) ?ys = filter (\<lambda>x. fst k = fst x) ps"
    if "k \<in> set ?ys" for k
  proof -
    from that eq have "k \<in> set ps" by simp
    with dp have "filter (\<lambda>x. fst k = fst x) ps = [k]" by (rule filter_same_key)
    moreover from dy that have "filter (\<lambda>x. fst k = fst x) ?ys = [k]" by (rule filter_same_key)
    ultimately show ?thesis by simp
  qed
  have "sort_key fst ps = ?ys"
    using m1 m2 by (rule properties_for_sort_key) simp_all
  then show ?thesis
    by (simp add: canonical_params_def)
qed
lemmas cache_defs =
  apply_odata_query_params_def resolve_or_build_def clear_odata_cache_def



lemma apply_miss:
  "scopes st s (generate_request_cache_key digest entity ps) = None
    \<Longrightarrow> build entity ps = Inr p
    \<Longrightarrow> apply_odata_query_params digest build s entity ps st =
          (Inr (length (plans st)),
           st \<lparr> plans := plans st @ [p],
                scopes := (scopes st) (s := (scopes st s)
                   (generate_request_cache_key digest entity ps \<mapsto> length (plans st))) \<rparr>)"
  by (simp add: cache_defs Let_def)

lemma apply_miss_error:
  "scopes st s (generate_request_cache_key digest entity ps) = None
    \<Longrightarrow> build entity ps = Inl err
    \<Longrightarrow> apply_odata_query_params digest build s entity ps st = (Inl err, st)"
  by (simp add: cache_defs Let_def)







lemma plans_exec:
  "\<exists>ys. plans (exec digest build st op) = plans st @ ys"
  by (cases op)
    (auto simp: cache_defs Let_def split: option.splits sum.splits)

lemma plans_foldl:
  "\<exists>ys. plans (foldl (exec digest build) st ops) = plans st @ ys"
proof (induction ops rule: rev_induct)
  case Nil
  show ?case by simp
next
  case (snoc op ops)
  then obtain ys where ys: "plans (foldl (exec digest build) st ops) = plans st @ ys" by blast
  obtain zs where "plans (exec digest build (foldl (exec digest build) st ops) op)
      = plans (foldl (exec digest build) st ops) @ zs"
    using plans_exec by blast
  with ys show ?case by simp
qed

lemma apply_miss_built:
  assumes miss: "scopes st s (generate_request_cache_key digest entity ps) = None"
    and res: "apply_odata_query_params digest build s entity ps st = (Inr a, st')"
  shows "a = length (plans st)
    \<and> build entity ps = Inr (plans st' ! a)
    \<and> st' = st \<lparr> plans := plans st @ [plans st' ! a],
                  scopes := (scopes st) (s := (scopes st s)
                     (generate_request_cache_key digest entity ps \<mapsto> length (plans st))) \<rparr>"
proof (cases "build entity ps")
  case (Inl err)
  with miss res show ?thesis by (simp add: apply_miss_error)
next
  case (Inr p)
  from apply_miss [where build = build, OF miss Inr] res
  have a: "a = length (plans st)"
    and st': "st' = st \<lparr> plans := plans st @ [p],
                  scopes := (scopes st) (s := (scopes st s)
                     (generate_request_cache_key digest entity ps \<mapsto> length (plans st))) \<rparr>"
    by simp_all
  have "plans st' ! a = p" by (simp add: a st')
  with a st' Inr show ?thesis by simp
qed

section \<open>Error payloads\<close>

text \<open>
  C3. For every error kind (filter, field-not-found, syntax, operator, value, expand) the
  constructed payload has the shape \<^verbatim>\<open>{error: {code, message, details: [...]}}\<close>, and the
  first entry of the details list carries the keys \<^verbatim>\<open>code\<close>, \<^verbatim>\<open>message\<close> and \<^verbatim>\<open>target\<close>,
  followed by the extra detail keys of the kind (for the base class: the keys of the
  caller's details dictionary).
\<close>

theorem error_payload_shape:
  "payload_shape_ok (detail (ODataFilterError_init cls msg c t d orig))
   \<and> set (detail_keys (detail (ODataFilterError_init cls msg c t d orig)))
       = {''code'', ''message'', ''target''}
         \<union> set (dict_keys (details (ODataFilterError_init cls msg c t d orig)))
   \<and> payload_shape_ok (detail (ODataFieldNotFoundError_init f1 m1 orig))
   \<and> detail_keys (detail (ODataFieldNotFoundError_init f1 m1 orig))
       = [''code'', ''message'', ''target'', ''field'', ''entity'']
   \<and> payload_shape_ok (detail (ODataInvalidFilterSyntaxError_init x2 s2 orig))
   \<and> detail_keys (detail (ODataInvalidFilterSyntaxError_init x2 s2 orig))
       = [''code'', ''message'', ''target'', ''expression'', ''syntax_error'']
   \<and> payload_shape_ok (detail (ODataInvalidOperatorError_init o3 x3 orig))
   \<and> detail_keys (detail (ODataInvalidOperatorError_init o3 x3 orig))
       = [''code'', ''message'', ''target'', ''operator'', ''expression'', ''valid_operators'']
   \<and> payload_shape_ok (detail (ODataInvalidValueError_init v4 t4 f4 orig))
   \<and> detail_keys (detail (ODataInvalidValueError_init v4 t4 f4 orig))
       = [''code'', ''message'', ''target'', ''value'', ''expected_type'', ''field'']
   \<and> payload_shape_ok (detail (ODataExpandError_init f5 m5 vf5 orig))
   \<and> detail_keys (detail (ODataExpandError_init f5 m5 vf5 orig))
       = [''code'', ''message'', ''target'', ''field'', ''entity'', ''valid_choices'']"
proof -
  have base_keys:
    "set (detail_keys (detail (ODataFilterError_init cls msg c t d orig)))
       = {''code'', ''message'', ''target''}
         \<union> set (dict_keys (details (ODataFilterError_init cls msg c t d orig)))"
  proof (cases "details (ODataFilterError_init cls msg c t d orig) = []")
    case True
    then show ?thesis
      by (auto simp: detail_keys_def init_defs read_defs Let_def split: option.splits if_splits)
  next
    case False
    then show ?thesis
      using dict_update_keys
      by (auto simp: detail_keys_def init_defs payload_error_def payload_details_def
            first_detail_def dict_get_def Let_def dict_update_keys
            split: option.splits if_splits)
        (auto simp: dict_keys_def)
  qed
  have k1: "detail_keys (detail (ODataFieldNotFoundError_init f1 m1 orig))
       = [''code'', ''message'', ''target'', ''field'', ''entity'']"
    by (simp add: detail_keys_def init_defs read_defs Let_def dict_update_def)
  have k2: "detail_keys (detail (ODataInvalidFilterSyntaxError_init x2 s2 orig))
       = [''code'', ''message'', ''target'', ''expression'', ''syntax_error'']"
    by (simp add: detail_keys_def init_defs read_defs Let_def dict_update_def)
  have k3: "detail_keys (detail (ODataInvalidOperatorError_init o3 x3 orig))
       = [''code'', ''message'', ''target'', ''operator'', ''expression'', ''valid_operators'']"
    by (simp add: detail_keys_def init_defs read_defs Let_def dict_update_def)
  have k4: "detail_keys (detail (ODataInvalidValueError_init v4 t4 f4 orig))
       = [''code'', ''message'', ''target'', ''value'', ''expected_type'', ''field'']"
    by (simp add: detail_keys_def init_defs read_defs Let_def dict_update_def)
  have k5: "detail_keys (detail (ODataExpandError_init f5 m5 vf5 orig))
       = [''code'', ''message'', ''target'', ''field'', ''entity'', ''valid_choices'']"
    by (simp add: detail_keys_def init_defs read_defs Let_def dict_update_def)
  have s1: "payload_shape_ok (detail (ODataFieldNotFoundError_init f1 m1 orig))"
    by (simp add: ODataFieldNotFoundError_init_def Let_def base_shape)
  have s2: "payload_shape_ok (detail (ODataInvalidFilterSyntaxError_init x2 s2 orig))"
    by (simp add: ODataInvalidFilterSyntaxError_init_def Let_def base_shape)
  have s3: "payload_shape_ok (detail (ODataInvalidOperatorError_init o3 x3 orig))"
    by (simp add: ODataInvalidOperatorError_init_def Let_def base_shape)
  have s4: "payload_shape_ok (detail (ODataInvalidValueError_init v4 t4 f4 orig))"
    by (simp add: ODataInvalidValueError_init_def Let_def base_shape)
  have s5: "payload_shape_ok (detail (ODataExpandError_init f5 m5 vf5 orig))"
    by (simp add: ODataExpandError_init_def Let_def base_shape)
  from base_shape base_keys k1 k2 k3 k4 k5 s1 s2 s3 s4 s5 show ?thesis
    by blast
qed

theorem error_payload_shape_witness:
  "payload_shape_ok (detail (ODataFilterError_init ODataFilterError ''bad filter'' None None
      (Some [(''hint'', PStr ''check quotes'')]) (None :: unit option)))
   \<and> payload_shape_ok (detail (ODataExpandError_init ''publisher'' ''Author''
      (Some [''books'']) (None :: unit option)))"
  using error_payload_shape [where cls = ODataFilterError and msg = "''bad filter''"
      and c = None and t = None and d = "Some [(''hint'', PStr ''check quotes'')]"
      and orig = "None :: unit option" and ?f5.0 = "''publisher''" and ?m5.0 = "''Author''"
      and ?vf5.0 = "Some [''books'']"]
  by simp

text \<open>
  C9. For every error class the top-level \<^verbatim>\<open>error.code\<close> of the payload (and the \<^verbatim>\<open>code=\<close>
  handed to the base class) is the literal \<^verbatim>\<open>BadRequest\<close>, whatever kind-specific code the
  subclass passes; the kind-specific code is the \<^verbatim>\<open>code\<close> of the single details entry.
\<close>

theorem top_level_code_is_BadRequest:
  "error_field (detail (ODataFilterError_init cls msg c t d orig)) ''code''
     = Some (PStr ''BadRequest'')
   \<and> api_code (ODataFilterError_init cls msg c t d orig) = ''BadRequest''
   \<and> (let e = ODataFieldNotFoundError_init f1 m1 orig in
        error_field (detail e) ''code'' = Some (PStr ''BadRequest'')
        \<and> detail_field (detail e) ''code'' = Some (PStr ''FieldNotFound'')
        \<and> map_option length (payload_details (detail e)) = Some 1)
   \<and> (let e = ODataInvalidFilterSyntaxError_init x2 s2 orig in
        error_field (detail e) ''code'' = Some (PStr ''BadRequest'')
        \<and> detail_field (detail e) ''code'' = Some (PStr ''InvalidFilterSyntax'')
        \<and> map_option length (payload_details (detail e)) = Some 1)
   \<and> (let e = ODataInvalidOperatorError_init o3 x3 orig in
        error_field (detail e) ''code'' = Some (PStr ''BadRequest'')
        \<and> detail_field (detail e) ''code'' = Some (PStr ''InvalidOperator'')
        \<and> map_option length (payload_details (detail e)) = Some 1)
   \<and> (let e = ODataInvalidValueError_init v4 t4 f4 orig in
        error_field (detail e) ''code'' = Some (PStr ''BadRequest'')
        \<and> detail_field (detail e) ''code'' = Some (PStr ''InvalidValue'')
        \<and> map_option length (payload_details (detail e)) = Some 1)
   \<and> (let e = ODataExpandError_init f5 m5 vf5 orig in
        error_field (detail e) ''code'' = Some (PStr ''BadRequest'')
        \<and> detail_field (detail e) ''code'' = Some (PStr ''InvalidExpandField'')
        \<and> map_option length (payload_details (detail e)) = Some 1)"
proof -
  have b: "api_code (ODataFilterError_init cls msg c t d orig) = ''BadRequest''"
    by (simp add: init_defs Let_def default_code_def)
  have e1: "let e = ODataFieldNotFoundError_init f1 m1 orig in
        error_field (detail e) ''code'' = Some (PStr ''BadRequest'')
        \<and> detail_field (detail e) ''code'' = Some (PStr ''FieldNotFound'')
        \<and> map_option length (payload_details (detail e)) = Some 1"
    by (simp add: init_defs read_defs Let_def default_code_def dict_update_def)
  have e2: "let e = ODataInvalidFilterSyntaxError_init x2 s2 orig in
        error_field (detail e) ''code'' = Some (PStr ''BadRequest'')
        \<and> detail_field (detail e) ''code'' = Some (PStr ''InvalidFilterSyntax'')
        \<and> map_option length (payload_details (detail e)) = Some 1"
    by (simp add: init_defs read_defs Let_def default_code_def dict_update_def)
  have e3: "let e = ODataInvalidOperatorError_init o3 x3 orig in
        error_field (detail e) ''code'' = Some (PStr ''BadRequest'')
        \<and> detail_field (detail e) ''code'' = Some (PStr ''InvalidOperator'')
        \<and> map_option length (payload_details (detail e)) = Some 1"
    by (simp add: init_defs read_defs Let_def default_code_def dict_update_def)
  have e4: "let e = ODataInvalidValueError_init v4 t4 f4 orig in
        error_field (detail e) ''code'' = Some (PStr ''BadRequest'')
        \<and> detail_field (detail e) ''code'' = Some (PStr ''InvalidValue'')
        \<and> map_option length (payload_details (detail e)) = Some 1"
    by (simp add: init_defs read_defs Let_def default_code_def dict_update_def)
  have e5: "let e = ODataExpandError_init f5 m5 vf5 orig in
        error_field (detail e) ''code'' = Some (PStr ''BadRequest'')
        \<and> detail_field (detail e) ''code'' = Some (PStr ''InvalidExpandField'')
        \<and> map_option length (payload_details (detail e)) = Some 1"
    by (simp add: init_defs read_defs Let_def default_code_def dict_update_def)
  from base_top_code b e1 e2 e3 e4 e5 show ?thesis
    by blast
qed

theorem top_level_code_is_BadRequest_witness:
  "error_field (detail (ODataFilterError_init ODataFilterError ''bad filter''
      (Some ''Teapot'') None None (None :: unit option))) ''code'' = Some (PStr ''BadRequest'')
   \<and> detail_field (detail (ODataFieldNotFoundError_init ''bogus'' ''Book''
        (None :: unit option))) ''code'' = Some (PStr ''FieldNotFound'')"
  using top_level_code_is_BadRequest [where cls = ODataFilterError and msg = "''bad filter''"
      and c = "Some ''Teapot''" and t = None and d = None
      and orig = "None :: unit option" and ?f1.0 = "''bogus''" and ?m1.0 = "''Book''"]
  by (simp add: Let_def)

text \<open>
  C10. When \<^verbatim>\<open>ODataFilterError\<close> is constructed with a non-empty details dictionary, every
  item of it is merged into the first details entry of the payload; in particular an item
  whose key is \<^verbatim>\<open>code\<close>, \<^verbatim>\<open>message\<close> or \<^verbatim>\<open>target\<close> replaces the standard value of that key.
  (A dictionary has distinct keys.)
\<close>

theorem details_override_detail_entry:
  "distinct (map fst ds) \<Longrightarrow> (k, v) \<in> set ds \<Longrightarrow>
     detail_field (detail (ODataFilterError_init cls msg c t (Some ds) orig)) k = Some v"
proof -
  assume dist: "distinct (map fst ds)" and mem: "(k, v) \<in> set ds"
  from mem have ne: "ds \<noteq> []" by auto
  from dist mem have "map_of (dict_update e0 ds) k = Some v" for e0
    by (rule map_of_dict_update_in)
  with ne show ?thesis
    by (simp add: init_defs read_defs Let_def)
qed

theorem details_override_detail_entry_witness:
  "detail_field (detail (ODataFilterError_init ODataFilterError ''bad filter''
      (Some ''InvalidFilterSyntax'') None
      (Some [(''target'', PStr ''$orderby''), (''code'', PStr ''Custom'')])
      (None :: unit option))) ''code'' = Some (PStr ''Custom'')"
  using details_override_detail_entry [where ds = "[(''target'', PStr ''$orderby''),
      (''code'', PStr ''Custom'')]" and k = "''code''" and v = "PStr ''Custom''"
      and cls = ODataFilterError and msg = "''bad filter''"
      and c = "Some ''InvalidFilterSyntax''" and t = None and orig = "None :: unit option"]
  by simp

text \<open>
  C4. For every operator string and filter expression, the payload of
  \<^verbatim>\<open>ODataInvalidOperatorError\<close> enumerates the fixed list of valid operators (under the key
  \<^verbatim>\<open>valid_operators\<close> of the details entry and of the \<^verbatim>\<open>details\<close> attribute, and inside the
  message), and that list is exactly
  \<^verbatim>\<open>eq, ne, gt, ge, lt, le, and, or, not, contains, startswith, endswith\<close>.
\<close>

theorem invalid_operator_enumerates_valid_operators:
  "(let e = ODataInvalidOperatorError_init operator filter_expression orig in
      detail_field (detail e) ''valid_operators'' = Some (PList (map PStr valid_operators))
      \<and> dict_get (details e) ''valid_operators'' = Some (PList (map PStr valid_operators))
      \<and> sublist (join '', '' valid_operators) (message e)
      \<and> error_field (detail e) ''message'' = Some (PStr (message e)))
   \<and> set valid_operators
       = {''eq'', ''ne'', ''gt'', ''ge'', ''lt'', ''le'', ''and'', ''or'', ''not'',
          ''contains'', ''startswith'', ''endswith''}
   \<and> distinct valid_operators"
proof -
  have a: "detail_field (detail (ODataInvalidOperatorError_init operator filter_expression orig))
             ''valid_operators'' = Some (PList (map PStr valid_operators))"
    by (simp add: init_defs read_defs Let_def dict_update_def)
  have b: "dict_get (details (ODataInvalidOperatorError_init operator filter_expression orig))
             ''valid_operators'' = Some (PList (map PStr valid_operators))"
    by (simp add: init_defs read_defs Let_def)
  have m: "message (ODataInvalidOperatorError_init operator filter_expression orig)
             = (''Unknown operator '' @ quoted operator @ ''. Valid operators: '')
               @ join '', '' valid_operators"
    by (simp add: init_defs Let_def)
  have c: "sublist (join '', '' valid_operators)
             (message (ODataInvalidOperatorError_init operator filter_expression orig))"
    unfolding m by (rule sublist_append_leftI)
  have d: "error_field (detail (ODataInvalidOperatorError_init operator filter_expression orig))
             ''message''
           = Some (PStr (message (ODataInvalidOperatorError_init operator filter_expression orig)))"
    by (simp add: init_defs read_defs Let_def)
  have s: "set valid_operators
       = {''eq'', ''ne'', ''gt'', ''ge'', ''lt'', ''le'', ''and'', ''or'', ''not'',
          ''contains'', ''startswith'', ''endswith''}"
    by (simp add: valid_operators_def)
  have dist: "distinct valid_operators"
    by (simp add: valid_operators_def)
  from a b c d s dist show ?thesis
    by (simp only: Let_def)
qed

theorem invalid_operator_enumerates_valid_operators_witness:
  "detail_field (detail (ODataInvalidOperatorError_init ''like'' ''name like 1''
      (None :: unit option))) ''valid_operators''
     = Some (PList [PStr ''eq'', PStr ''ne'', PStr ''gt'', PStr ''ge'', PStr ''lt'', PStr ''le'',
          PStr ''and'', PStr ''or'', PStr ''not'', PStr ''contains'', PStr ''startswith'',
          PStr ''endswith''])"
  using invalid_operator_enumerates_valid_operators [where operator = "''like''"
      and filter_expression = "''name like 1''" and orig = "None :: unit option"]
  by (simp add: Let_def valid_operators_def)

text \<open>
  C5. For every field name and entity (model) name, the \<^verbatim>\<open>ODataFieldNotFoundError\<close> names
  both: its message (attribute and payload) contains the field name and the entity name,
  and the details (attribute and payload entry) carry them under the keys \<^verbatim>\<open>field\<close> and
  \<^verbatim>\<open>entity\<close>.
\<close>

theorem field_not_found_names_field_and_entity:
  "(let e = ODataFieldNotFoundError_init field_name model_name orig in
      sublist field_name (message e)
      \<and> sublist model_name (message e)
      \<and> error_field (detail e) ''message'' = Some (PStr (message e))
      \<and> detail_field (detail e) ''message'' = Some (PStr (message e))
      \<and> dict_get (details e) ''field'' = Some (PStr field_name)
      \<and> dict_get (details e) ''entity'' = Some (PStr model_name)
      \<and> detail_field (detail e) ''field'' = Some (PStr field_name)
      \<and> detail_field (detail e) ''entity'' = Some (PStr model_name))"
proof -
  let ?e = "ODataFieldNotFoundError_init field_name model_name orig"
  have m1: "message ?e = (''Field '' @ [CHR 0x27]) @ field_name
              @ ([CHR 0x27] @ '' does not exist on entity '' @ quoted model_name)"
    by (simp add: init_defs Let_def quoted_def)
  have m2: "message ?e = (''Field '' @ quoted field_name @ '' does not exist on entity ''
              @ [CHR 0x27]) @ model_name @ [CHR 0x27]"
    by (simp add: init_defs Let_def quoted_def)
  have a: "sublist field_name (message ?e)"
    by (subst m1) (rule sublist_appendI)
  have b: "sublist model_name (message ?e)"
    by (subst m2) (rule sublist_appendI)
  have c: "error_field (detail ?e) ''message'' = Some (PStr (message ?e))"
    by (simp add: init_defs read_defs Let_def)
  have d: "detail_field (detail ?e) ''message'' = Some (PStr (message ?e))"
    by (simp add: init_defs read_defs Let_def dict_update_def)
  have e: "dict_get (details ?e) ''field'' = Some (PStr field_name)"
    by (simp add: init_defs read_defs Let_def)
  have f: "dict_get (details ?e) ''entity'' = Some (PStr model_name)"
    by (simp add: init_defs read_defs Let_def)
  have g: "detail_field (detail ?e) ''field'' = Some (PStr field_name)"
    by (simp add: init_defs read_defs Let_def dict_update_def)
  have h: "detail_field (detail ?e) ''entity'' = Some (PStr model_name)"
    by (simp add: init_defs read_defs Let_def dict_update_def)
  from a b c d e f g h show ?thesis
    by (simp only: Let_def)
qed

theorem field_not_found_names_field_and_entity_witness:
  "sublist ''bogus'' (message (ODataFieldNotFoundError_init ''bogus'' ''Book''
      (None :: unit option)))
   \<and> detail_field (detail (ODataFieldNotFoundError_init ''bogus'' ''Book''
        (None :: unit option))) ''entity'' = Some (PStr ''Book'')"
  using field_not_found_names_field_and_entity [where field_name = "''bogus''"
      and model_name = "''Book''" and orig = "None :: unit option"]
  by (simp add: Let_def)

text \<open>
  C6. The target reported in the details entry is \<^verbatim>\<open>$filter\<close> by default: for the base class
  when the caller gives no target (neither as argument nor as a key of the details
  dictionary), and for the field-not-found, syntax, operator and value errors on every
  input. For \<^verbatim>\<open>ODataExpandError\<close> it is \<^verbatim>\<open>$expand\<close> on every input.
\<close>

theorem reported_target_by_kind:
  "target (ODataFilterError_init cls msg c None d orig) = ''$filter''
   \<and> detail_field (detail (ODataFilterError_init cls msg c None None orig)) ''target''
       = Some (PStr ''$filter'')
   \<and> (''target'' \<notin> set (dict_keys ds) \<longrightarrow>
        detail_field (detail (ODataFilterError_init cls msg c None (Some ds) orig)) ''target''
          = Some (PStr ''$filter''))
   \<and> (let e = ODataFieldNotFoundError_init f1 m1 orig in
        target e = ''$filter'' \<and> detail_field (detail e) ''target'' = Some (PStr ''$filter''))
   \<and> (let e = ODataInvalidFilterSyntaxError_init x2 s2 orig in
        target e = ''$filter'' \<and> detail_field (detail e) ''target'' = Some (PStr ''$filter''))
   \<and> (let e = ODataInvalidOperatorError_init o3 x3 orig in
        target e = ''$filter'' \<and> detail_field (detail e) ''target'' = Some (PStr ''$filter''))
   \<and> (let e = ODataInvalidValueError_init v4 t4 f4 orig in
        target e = ''$filter'' \<and> detail_field (detail e) ''target'' = Some (PStr ''$filter''))
   \<and> (let e = ODataExpandError_init f5 m5 vf5 orig in
        target e = ''$expand'' \<and> detail_field (detail e) ''target'' = Some (PStr ''$expand''))"
proof -
  have b1: "target (ODataFilterError_init cls msg c None d orig) = ''$filter''"
    by (simp add: init_defs Let_def)
  have b2: "detail_field (detail (ODataFilterError_init cls msg c None None orig)) ''target''
       = Some (PStr ''$filter'')"
    by (simp add: init_defs read_defs Let_def)
  have b3: "detail_field (detail (ODataFilterError_init cls msg c None (Some ds) orig)) ''target''
          = Some (PStr ''$filter'')" if "''target'' \<notin> set (dict_keys ds)"
  proof -
    from that have "''target'' \<notin> fst ` set ds"
      by (simp add: dict_keys_def)
    then have "map_of (dict_update e0 ds) ''target'' = map_of e0 ''target''" for e0
      by (rule map_of_dict_update_notin)
    then show ?thesis
      by (simp add: init_defs read_defs Let_def)
  qed
  have e1: "let e = ODataFieldNotFoundError_init f1 m1 orig in
        target e = ''$filter'' \<and> detail_field (detail e) ''target'' = Some (PStr ''$filter'')"
    by (simp add: init_defs read_defs Let_def dict_update_def)
  have e2: "let e = ODataInvalidFilterSyntaxError_init x2 s2 orig in
        target e = ''$filter'' \<and> detail_field (detail e) ''target'' = Some (PStr ''$filter'')"
    by (simp add: init_defs read_defs Let_def dict_update_def)
  have e3: "let e = ODataInvalidOperatorError_init o3 x3 orig in
        target e = ''$filter'' \<and> detail_field (detail e) ''target'' = Some (PStr ''$filter'')"
    by (simp add: init_defs read_defs Let_def dict_update_def)
  have e4: "let e = ODataInvalidValueError_init v4 t4 f4 orig in
        target e = ''$filter'' \<and> detail_field (detail e) ''target'' = Some (PStr ''$filter'')"
    by (simp add: init_defs read_defs Let_def dict_update_def)
  have e5: "let e = ODataExpandError_init f5 m5 vf5 orig in
        target e = ''$expand'' \<and> detail_field (detail e) ''target'' = Some (PStr ''$expand'')"
    by (simp add: init_defs read_defs Let_def dict_update_def)
  from b1 b2 b3 e1 e2 e3 e4 e5 show ?thesis
    by blast
qed

theorem reported_target_by_kind_witness:
  "''target'' \<notin> set (dict_keys [(''hint'', PStr ''check quotes'')])
   \<and> detail_field (detail (ODataFilterError_init ODataFilterError ''bad filter'' None None
        (Some [(''hint'', PStr ''check quotes'')]) (None :: unit option))) ''target''
       = Some (PStr ''$filter'')
   \<and> detail_field (detail (ODataExpandError_init ''publisher'' ''Author'' (Some [''books''])
        (None :: unit option))) ''target'' = Some (PStr ''$expand'')"
  using reported_target_by_kind [where cls = ODataFilterError and msg = "''bad filter''"
      and c = None and ds = "[(''hint'', PStr ''check quotes'')]"
      and orig = "None :: unit option" and ?f5.0 = "''publisher''" and ?m5.0 = "''Author''"
      and ?vf5.0 = "Some [''books'']"]
  by (simp add: Let_def dict_keys_def)

text \<open>
  C7. An \<^verbatim>\<open>ODataExpandError\<close> carries the offending field, the entity and the list of valid
  choices in its details entry (the empty list when no list is supplied), and its message
  names the offending field. When a non-empty list of valid fields is supplied, the message
  continues with \<^verbatim>\<open>. Choices are: \<close> and the choices, each between single quotes and
  separated by a comma and a space, so every choice occurs in the message; otherwise the
  message stops after the offending field.
\<close>

theorem expand_error_carries_valid_choices:
  "(let e = ODataExpandError_init field_name model_name valid_fields orig in
      detail_field (detail e) ''field'' = Some (PStr field_name)
      \<and> detail_field (detail e) ''entity'' = Some (PStr model_name)
      \<and> detail_field (detail e) ''valid_choices''
          = Some (PList (map PStr (case valid_fields of None \<Rightarrow> [] | Some vs \<Rightarrow> vs)))
      \<and> error_field (detail e) ''message'' = Some (PStr (message e))
      \<and> sublist field_name (message e)
      \<and> (\<forall>vs. valid_fields = Some vs \<and> vs \<noteq> [] \<longrightarrow>
            message e @ '', ''
              = ''Invalid field name(s) given in select_related: ''
                  @ [CHR 0x27] @ field_name @ [CHR 0x27] @ ''. Choices are: ''
                  @ concat (map (\<lambda>choice. [CHR 0x27] @ choice @ [CHR 0x27] @ '', '') vs)
            \<and> (\<forall>choice \<in> set vs. sublist choice (message e)))
      \<and> (valid_fields = None \<or> valid_fields = Some [] \<longrightarrow>
            message e = ''Invalid field name(s) given in select_related: ''
                          @ [CHR 0x27] @ field_name @ [CHR 0x27]))"
proof -
  let ?e = "ODataExpandError_init field_name model_name valid_fields orig"
  let ?head = "''Invalid field name(s) given in select_related: ''"
  have a: "detail_field (detail ?e) ''field'' = Some (PStr field_name)"
    by (simp add: init_defs read_defs Let_def dict_update_def)
  have b: "detail_field (detail ?e) ''entity'' = Some (PStr model_name)"
    by (simp add: init_defs read_defs Let_def dict_update_def)
  have c: "detail_field (detail ?e) ''valid_choices''
          = Some (PList (map PStr (case valid_fields of None \<Rightarrow> [] | Some vs \<Rightarrow> vs)))"
    by (simp add: init_defs read_defs Let_def dict_update_def split: option.splits list.splits)
  have d: "error_field (detail ?e) ''message'' = Some (PStr (message ?e))"
    by (simp add: init_defs read_defs Let_def)
  have m_some: "message ?e = (?head @ [CHR 0x27] @ field_name @ [CHR 0x27] @ ''. Choices are: '')
                          @ join '', '' (map quoted vs)"
    if "valid_fields = Some vs" and "vs \<noteq> []" for vs
    using that by (cases vs) (simp_all add: init_defs Let_def quoted_def)
  have m_none: "message ?e = ?head @ [CHR 0x27] @ field_name @ [CHR 0x27]"
    if "valid_fields = None \<or> valid_fields = Some []"
    using that by (auto simp: init_defs Let_def quoted_def)
  have f: "sublist field_name (message ?e)"
  proof (cases "valid_fields = None \<or> valid_fields = Some []")
    case True
    have "sublist field_name ((?head @ [CHR 0x27]) @ field_name @ [CHR 0x27])"
      by (rule sublist_appendI)
    with m_none [OF True] show ?thesis by simp
  next
    case False
    then obtain vs where vs: "valid_fields = Some vs" "vs \<noteq> []" by auto
    have "sublist field_name ((?head @ [CHR 0x27]) @ field_name
            @ ([CHR 0x27] @ ''. Choices are: '' @ join '', '' (map quoted vs)))"
      by (rule sublist_appendI)
    with m_some [OF vs] show ?thesis by simp
  qed
  have enum: "message ?e @ '', ''
              = ?head @ [CHR 0x27] @ field_name @ [CHR 0x27] @ ''. Choices are: ''
                  @ concat (map (\<lambda>choice. [CHR 0x27] @ choice @ [CHR 0x27] @ '', '') vs)"
    if "valid_fields = Some vs" and "vs \<noteq> []" for vs
  proof -
    from that(2) have "map quoted vs \<noteq> []" by simp
    then have "join '', '' (map quoted vs) @ '', ''
                 = concat (map (\<lambda>x. x @ '', '') (map quoted vs))"
      by (rule join_concat)
    also have "\<dots> = concat (map (\<lambda>choice. [CHR 0x27] @ choice @ [CHR 0x27] @ '', '') vs)"
      by (simp add: quoted_def comp_def)
    finally show ?thesis
      by (simp add: m_some [OF that])
  qed
  have s: "sublist choice (message ?e)"
    if "valid_fields = Some vs" and "vs \<noteq> []" and "choice \<in> set vs" for vs choice
  proof -
    from that(3) have "sublist choice (join '', '' (map quoted vs))"
      by (rule sublist_join_quoted)
    then show ?thesis
      by (simp only: m_some [OF that(1) that(2)] sublist_append) simp
  qed
  from a b c d f enum s m_none show ?thesis
    by (simp only: Let_def) blast
qed

theorem expand_error_carries_valid_choices_witness:
  "message (ODataExpandError_init ''publisher'' ''Author'' (Some [''books'', ''editor''])
        (None :: unit option))
      = ''Invalid field name(s) given in select_related: '' @ [CHR 0x27] @ ''publisher''
          @ [CHR 0x27] @ ''. Choices are: '' @ [CHR 0x27] @ ''books'' @ [CHR 0x27] @ '', ''
          @ [CHR 0x27] @ ''editor'' @ [CHR 0x27]
   \<and> sublist ''books'' (message (ODataExpandError_init ''publisher'' ''Author''
        (Some [''books'', ''editor'']) (None :: unit option)))
   \<and> sublist ''editor'' (message (ODataExpandError_init ''publisher'' ''Author''
        (Some [''books'', ''editor'']) (None :: unit option)))
   \<and> detail_field (detail (ODataExpandError_init ''publisher'' ''Author''
        (Some [''books'', ''editor'']) (None :: unit option))) ''valid_choices''
      = Some (PList [PStr ''books'', PStr ''editor''])"
  using expand_error_carries_valid_choices [where field_name = "''publisher''"
      and model_name = "''Author''" and valid_fields = "Some [''books'', ''editor'']"
      and orig = "None :: unit option"]
  by (simp add: Let_def sublist_code(3))

section \<open>Request cache properties\<close>

text \<open>
  C2. Two parameter mappings that hold the same key-value pairs and differ only in the
  insertion order of their keys give, for the same entity, the same cache key.
  (A dictionary has distinct keys.)
\<close>

theorem cache_key_order_independent:
  "distinct (map fst ps) \<Longrightarrow> distinct (map fst qs) \<Longrightarrow> set ps = set qs \<Longrightarrow>
     generate_request_cache_key digest entity ps = generate_request_cache_key digest entity qs"
  by (simp add: generate_request_cache_key_def canonical_params_permutation [of ps qs])

theorem cache_key_order_independent_witness:
  "[(''$filter'', ''name eq 1''), (''$orderby'', ''name'')]
     \<noteq> [(''$orderby'', ''name''), (''$filter'', ''name eq 1'')]
   \<and> generate_request_cache_key sample_digest ''test.MockModel''
         [(''$filter'', ''name eq 1''), (''$orderby'', ''name'')]
       = generate_request_cache_key sample_digest ''test.MockModel''
         [(''$orderby'', ''name''), (''$filter'', ''name eq 1'')]"
proof -
  have d1: "distinct (map fst [(''$filter'', ''name eq 1''), (''$orderby'', ''name'')])"
    by simp
  have d2: "distinct (map fst [(''$orderby'', ''name''), (''$filter'', ''name eq 1'')])"
    by simp
  have s: "set [(''$filter'', ''name eq 1''), (''$orderby'', ''name'')]
             = set [(''$orderby'', ''name''), (''$filter'', ''name eq 1'')]"
    by auto
  from cache_key_order_independent [OF d1 d2 s, of sample_digest "''test.MockModel''"]
  show ?thesis by simp
qed



text \<open>
  C8. After a parameter mapping that a scope did not hold has been translated to a plan
  there, and for as long as the scope still holds that plan object for the mapping
  (whatever other cache operations happened since), clearing the scope and translating the
  mapping again returns a new plan object, not identical to the earlier one, with the same
  structure; the scope then holds the new object.
\<close>

theorem clear_then_retranslate_builds_new_plan:
  assumes miss: "scopes st s (generate_request_cache_key digest entity ps) = None"
    and first: "apply_odata_query_params digest build s entity ps st = (Inr a, st1)"
    and later: "st2 = foldl (exec digest build) st1 ops2"
    and still: "scopes st2 s (generate_request_cache_key digest entity ps) = Some a"
  shows "\<exists>a' st'. apply_odata_query_params digest build s entity ps (clear_odata_cache s st2)
                     = (Inr a', st')
            \<and> a' \<noteq> a \<and> a < length (plans st') \<and> a' < length (plans st')
            \<and> plans st' ! a' = plans st' ! a
            \<and> build entity ps = Inr (plans st' ! a')
            \<and> scopes st' s (generate_request_cache_key digest entity ps) = Some a'"
proof -
  let ?key = "generate_request_cache_key digest entity ps"
  let ?cl = "clear_odata_cache s st2"
  from apply_miss_built [OF miss first]
  have a_eq: "a = length (plans st)"
    and built: "build entity ps = Inr (plans st1 ! a)"
    and st1_eq: "st1 = st \<lparr> plans := plans st @ [plans st1 ! a],
                  scopes := (scopes st) (s := (scopes st s) (?key \<mapsto> length (plans st))) \<rparr>"
    by blast+
  have "plans st1 = plans st @ [plans st1 ! a]"
    by (subst st1_eq) simp
  then have a1: "a < length (plans st1)"
    using a_eq by (metis length_append_singleton lessI)
  obtain ys where ys: "plans st2 = plans st1 @ ys"
    unfolding later using plans_foldl by blast
  have a2: "a < length (plans st2)" using a1 ys by simp
  have same: "plans st2 ! a = plans st1 ! a" using a1 ys by (simp add: nth_append)
  have missc: "scopes ?cl s ?key = None"
    by (simp add: clear_odata_cache_def)
  have pl: "plans ?cl = plans st2"
    by (simp add: clear_odata_cache_def)
  let ?st' = "?cl \<lparr> plans := plans ?cl @ [plans st1 ! a],
                scopes := (scopes ?cl) (s := (scopes ?cl s) (?key \<mapsto> length (plans ?cl))) \<rparr>"
  have r: "apply_odata_query_params digest build s entity ps ?cl
               = (Inr (length (plans ?cl)), ?st')"
    using missc built by (rule apply_miss)
  moreover have "length (plans ?cl) \<noteq> a" using a2 pl by simp
  moreover have "a < length (plans ?st')" using a2 pl by simp
  moreover have "length (plans ?cl) < length (plans ?st')" by simp
  moreover have "plans ?st' ! length (plans ?cl) = plans ?st' ! a"
    using a2 pl same by (simp add: nth_append)
  moreover have "build entity ps = Inr (plans ?st' ! length (plans ?cl))"
    using built by simp
  moreover have "scopes ?st' s ?key = Some (length (plans ?cl))"
    by simp
  ultimately show ?thesis by blast
qed

theorem clear_then_retranslate_builds_new_plan_witness:
  "scopes (run sample_digest sample_build [])
      0 (generate_request_cache_key sample_digest ''test.MockModel''
           [(''$filter'', ''name eq 1'')]) = None
   \<and> fst (apply_odata_query_params sample_digest sample_build 0 ''test.MockModel''
         [(''$filter'', ''name eq 1'')] (run sample_digest sample_build [])) = Inr 0
   \<and> (let st1 = snd (apply_odata_query_params sample_digest sample_build 0 ''test.MockModel''
                      [(''$filter'', ''name eq 1'')] (run sample_digest sample_build []));
          st2 = foldl (exec sample_digest sample_build) st1
                  [Translate 0 ''test.MockModel'' [(''$filter'', ''name eq 1'')]]
      in scopes st2 0 (generate_request_cache_key sample_digest ''test.MockModel''
                         [(''$filter'', ''name eq 1'')]) = Some 0
         \<and> (\<exists>a' st'. apply_odata_query_params sample_digest sample_build 0 ''test.MockModel''
                     [(''$filter'', ''name eq 1'')] (clear_odata_cache 0 st2) = (Inr a', st')
               \<and> a' \<noteq> 0 \<and> plans st' ! a' = plans st' ! 0))"
proof -
  let ?st = "run sample_digest sample_build []"
  let ?r = "apply_odata_query_params sample_digest sample_build 0 ''test.MockModel''
              [(''$filter'', ''name eq 1'')] ?st"
  let ?st2 = "foldl (exec sample_digest sample_build) (snd ?r)
                [Translate 0 ''test.MockModel'' [(''$filter'', ''name eq 1'')]]"
  have m0: "scopes ?st 0 (generate_request_cache_key sample_digest ''test.MockModel''
              [(''$filter'', ''name eq 1'')]) = None"
    by (simp add: run_def empty_cache_def)
  have res: "fst ?r = Inr 0"
    by (simp add: run_def empty_cache_def cache_defs sample_build_def)
  then have first: "?r = (Inr 0, snd ?r)"
    by (metis prod.collapse)
  have still: "scopes ?st2 0 (generate_request_cache_key sample_digest ''test.MockModel''
              [(''$filter'', ''name eq 1'')]) = Some 0"
    by (simp add: run_def empty_cache_def cache_defs sample_build_def)
  from clear_then_retranslate_builds_new_plan [OF m0 first refl still] m0 res still
  show ?thesis
    unfolding Let_def by blast
qed

end
